theory Spec2Isabelle
  imports Main "HOL-Library.AList" "HOL-Library.Sublist"
begin

section \<open>HTTP data\<close>

text \<open>
  The blob operations of the registry client talk to a remote registry through an
  injected HTTP client. The client and the Go standard library are not part of the
  repository: they appear here as parameters (\<open>Client\<close>, \<open>golib\<close>), and
  the operations are functions of them. Every effect an operation has on the outside is
  recorded in a \<open>world\<close>: the calls handed to the client, in order, and the response
  bodies closed, in order. \<open>Logf\<close> only writes a log line and is left out.
\<close>

type_synonym header = "(string \<times> string) list"

definition Header_Get :: "header \<Rightarrow> string \<Rightarrow> string" where
  \<comment> \<open>\<open>Header.Get\<close>: the value stored under the key, the empty string when there is none.\<close>
  "Header_Get h k = (case map_of h k of None \<Rightarrow> [] | Some v \<Rightarrow> v)"

definition Header_Set :: "header \<Rightarrow> string \<Rightarrow> string \<Rightarrow> header" where
  \<comment> \<open>\<open>Header.Set\<close>: replaces the value stored under the key.\<close>
  "Header_Set h k v = AList.update k v h"

text \<open>
  A response body is a stream held by a connection. \<open>BodyId\<close> identifies the stream,
  so that closing it can be counted; \<open>Data\<close> is what reading it to the end yields.
\<close>

record body =
  BodyId :: nat
  Data :: string

record response =
  StatusCode :: int
  Status :: string
  Header :: header
  ContentLength :: int
  Body :: body

text \<open>
  \<open>StatusCode\<close> is a Go \<open>int\<close> and \<open>ContentLength\<close> an \<open>int64\<close>; the code
  compares and copies them and does no arithmetic on them.
\<close>

text \<open>
  Modelled from the spec: the type \<open>HttpStatusError\<close> is declared in another file
  of this repository. \<open>HasBlob\<close> reads \<open>Response.StatusCode\<close> from it, and the
  spec calls it an HTTP-status error nested in a transport-error wrapper, so it is an error
  that carries the response whose status it reports.

  The other errors: \<open>UrlError\<close> is \<open>*url.Error\<close>, the wrapper in which
  \<open>http.Client\<close> returns a failed exchange, with its fields \<open>Op\<close>, \<open>URL\<close> and
  \<open>Err\<close>; \<open>ErrorString\<close> is an error of any other type, with its message.
\<close>

datatype go_error =
    UrlError string string go_error
  | HttpStatusError response
  | ErrorString string

text \<open>
  A request body is an \<open>io.Reader\<close>, modelled by the bytes it yields. \<open>getBody\<close> is a
  function without arguments that returns a fresh reader or an error; it is modelled by
  what it returns.
\<close>

type_synonym reader = string
type_synonym get_body = "go_error + reader"

record request =
  Method :: string
  Target :: string
  ReqHeader :: header
  ReqBody :: "reader option"
  GetBody :: "get_body option"

text \<open>
  What \<open>http.Client\<close> hands back is a pair \<open>(resp, err)\<close>. Its contract excludes the
  pair \<open>(nil, nil)\<close>; the code itself tests \<open>resp != nil\<close> next to \<open>err != nil\<close>,
  so a response that comes with an error is a case of its own.
\<close>

datatype exchange =
    Ok response
  | Failed go_error
  | FailedWithResponse response go_error

text \<open>The four entry points of the client that the code uses.\<close>

datatype call =
    Get string
  | Head string
  | Post string string "reader option"
  | Do request

record world =
  calls :: "call list"
  closed :: "nat list"

text \<open>
  \<open>url\<close> is the method \<open>Registry.url\<close>, which formats a path template with its
  arguments under the registry's base address; it is defined next to the \<open>Registry\<close>
  type, outside \<open>blob.go\<close>, and is taken as a parameter. \<open>Client\<close> answers a call, given the calls made before it.
\<close>

record registry =
  url :: "string \<Rightarrow> string list \<Rightarrow> string"
  Client :: "call list \<Rightarrow> call \<Rightarrow> exchange"

text \<open>
  The part of \<open>net/url\<close> and \<open>fmt\<close> the code calls. Of a parsed URL the code reads
  and writes \<open>RawQuery\<close> only.
\<close>

record go_url =
  Scheme :: string
  Host :: string
  Path :: string
  RawQuery :: string
  Fragment :: string

type_synonym url_values = "(string \<times> string list) list"

record golib =
  url_Parse :: "string \<Rightarrow> go_error + go_url"
  URL_String :: "go_url \<Rightarrow> string"
  url_ParseQuery :: "string \<Rightarrow> url_values"
  Values_Encode :: "url_values \<Rightarrow> string"
  Itoa :: "int \<Rightarrow> string"
  Error_text :: "go_error \<Rightarrow> string"

section \<open>Primitive steps\<close>

definition do_call :: "registry \<Rightarrow> call \<Rightarrow> world \<Rightarrow> exchange \<times> world" where
  "do_call reg c w = (Client reg (calls w) c, w\<lparr>calls := calls w @ [c]\<rparr>)"

definition Close :: "response \<Rightarrow> world \<Rightarrow> world" where
  \<comment> \<open>\<open>resp.Body.Close()\<close>\<close>
  "Close resp w = w\<lparr>closed := closed w @ [BodyId (Body resp)]\<rparr>"

definition NewRequest :: "golib \<Rightarrow> string \<Rightarrow> string \<Rightarrow> reader option \<Rightarrow> go_error + request" where
  \<comment> \<open>\<open>http.NewRequest\<close> with a constant, valid method: it fails when the address does not parse.\<close>
  "NewRequest L method target content =
     (case url_Parse L target of
        Inl err \<Rightarrow> Inl err
      | Inr u \<Rightarrow> Inr \<lparr>Method = method, Target = target, ReqHeader = [],
                      ReqBody = content, GetBody = None\<rparr>)"

definition withGetBody :: "get_body option \<Rightarrow> request \<Rightarrow> request" where
  \<comment> \<open>\<open>if getBody != nil { upload.GetBody = getBody }\<close>\<close>
  "withGetBody getBody rq = (case getBody of None \<Rightarrow> rq | Some g \<Rightarrow> rq\<lparr>GetBody := Some g\<rparr>)"

definition Values_Set :: "url_values \<Rightarrow> string \<Rightarrow> string \<Rightarrow> url_values" where
  \<comment> \<open>\<open>Values.Set\<close>: the key gets the one value.\<close>
  "Values_Set q k v = AList.update k [v] q"

definition setDigest :: "golib \<Rightarrow> go_url \<Rightarrow> string \<Rightarrow> go_url" where
  \<comment> \<open>\<open>q := uploadUrl.Query(); q.Set("digest", digest.String()); uploadUrl.RawQuery = q.Encode()\<close>\<close>
  "setDigest L uploadUrl digest =
     uploadUrl\<lparr>RawQuery := Values_Encode L (Values_Set (url_ParseQuery L (RawQuery uploadUrl)) ''digest'' digest)\<rparr>"

definition unexpectedStatus :: "golib \<Rightarrow> go_url \<Rightarrow> response \<Rightarrow> go_error" where
  \<comment> \<open>\<open>buf.ReadFrom(resp.Body); errors.Errorf("retrieving %+v returned %v response: %s", uploadUrl, resp.Status, buf.String())\<close>\<close>
  "unexpectedStatus L uploadUrl resp =
     ErrorString (''retrieving '' @ URL_String L uploadUrl @ '' returned '' @ Status resp
                  @ '' response: '' @ Data (Body resp))"

section \<open>The operations\<close>

definition DownloadBlob :: "registry \<Rightarrow> string \<Rightarrow> string \<Rightarrow> world \<Rightarrow> (go_error + body) \<times> world" where
  "DownloadBlob reg repository digest w =
     (case do_call reg (Get (url reg ''/v2/%s/blobs/%s'' [repository, digest])) w of
        (Failed err, w1) \<Rightarrow> (Inl err, w1)
      | (FailedWithResponse resp err, w1) \<Rightarrow> (Inl err, w1)
      | (Ok resp, w1) \<Rightarrow> (Inr (Body resp), w1))"

definition initiateUpload :: "golib \<Rightarrow> registry \<Rightarrow> string \<Rightarrow> world \<Rightarrow> (go_error + go_url) \<times> world" where
  "initiateUpload L reg repository w =
     (case do_call reg (Post (url reg ''/v2/%s/blobs/uploads/'' [repository]) ''application/octet-stream'' None) w of
        (Failed err, w1) \<Rightarrow> (Inl err, w1)
      | (FailedWithResponse resp err, w1) \<Rightarrow> (Inl err, Close resp w1)
      | (Ok resp, w1) \<Rightarrow>
          (case url_Parse L (Header_Get (Header resp) ''Location'') of
             Inl err \<Rightarrow> (Inl err, Close resp w1)
           | Inr locationUrl \<Rightarrow> (Inr locationUrl, Close resp w1)))"

definition completeChunkedUploadBlob ::
  "golib \<Rightarrow> registry \<Rightarrow> string \<Rightarrow> string \<Rightarrow> get_body option \<Rightarrow> go_url \<Rightarrow> world \<Rightarrow> go_error option \<times> world" where
  "completeChunkedUploadBlob L reg repository digest getBody uploadUrl0 w =
     (let uploadUrl = setDigest L uploadUrl0 digest in
      case NewRequest L ''PUT'' (URL_String L uploadUrl) None of
        Inl err \<Rightarrow> (Some err, w)
      | Inr upload0 \<Rightarrow>
          (let upload = withGetBody getBody
                 (upload0\<lparr>ReqHeader :=
                    Header_Set (Header_Set (Header_Set (ReqHeader upload0)
                      ''Content-Type'' ''application/octet-stream'')
                      ''Content-Range'' ''0-0'')
                      ''Content-Length'' ''0''\<rparr>)
           in case do_call reg (Do upload) w of
                (Failed err, w1) \<Rightarrow> (Some err, w1)
              | (FailedWithResponse resp err, w1) \<Rightarrow> (Some err, w1)
              | (Ok resp, w1) \<Rightarrow>
                  (if StatusCode resp \<noteq> 201 then (Some (unexpectedStatus L uploadUrl resp), w1)
                   else (None, Close resp w1))))"

definition UploadChunkedBlob ::
  "golib \<Rightarrow> registry \<Rightarrow> string \<Rightarrow> string \<Rightarrow> reader \<Rightarrow> get_body option \<Rightarrow> world \<Rightarrow> go_error option \<times> world" where
  "UploadChunkedBlob L reg repository digest content getBody w =
     (case initiateUpload L reg repository w of
        (Inl err, w1) \<Rightarrow> (Some err, w1)
      | (Inr uploadUrl, w1) \<Rightarrow>
          (case NewRequest L ''PATCH'' (URL_String L uploadUrl) (Some content) of
             Inl err \<Rightarrow> (Some err, w1)
           | Inr upload0 \<Rightarrow>
               (let upload = withGetBody getBody
                      (upload0\<lparr>ReqHeader :=
                         Header_Set (ReqHeader upload0) ''Content-Type'' ''application/octet-stream''\<rparr>)
                in case do_call reg (Do upload) w1 of
                     (Failed err, w2) \<Rightarrow> (Some err, w2)
                   | (FailedWithResponse resp err, w2) \<Rightarrow> (Some err, w2)
                   | (Ok resp, w2) \<Rightarrow>
                       (if StatusCode resp \<noteq> 202 then (Some (unexpectedStatus L uploadUrl resp), w2)
                        else completeChunkedUploadBlob L reg repository digest getBody uploadUrl
                               (Close resp w2)))))"

text \<open>
  \<open>UploadBlobToArtifactory\<close> is the older two-step upload of \<open>registry/blob.go\<close>. It
  sets the digest before the first step, and it returns whatever error the second
  exchange gave, without looking at the response.
\<close>

definition UploadBlobToArtifactory ::
  "golib \<Rightarrow> registry \<Rightarrow> string \<Rightarrow> string \<Rightarrow> reader \<Rightarrow> get_body option \<Rightarrow> world \<Rightarrow> go_error option \<times> world" where
  "UploadBlobToArtifactory L reg repository digest content getBody w =
     (case initiateUpload L reg repository w of
        (Inl err, w1) \<Rightarrow> (Some err, w1)
      | (Inr uploadUrl0, w1) \<Rightarrow>
          (let uploadUrl = setDigest L uploadUrl0 digest in
           case NewRequest L ''PATCH'' (URL_String L uploadUrl) (Some content) of
             Inl err \<Rightarrow> (Some err, w1)
           | Inr step1 \<Rightarrow>
               (let uploadStep1 = withGetBody getBody
                      (step1\<lparr>ReqHeader :=
                         Header_Set (ReqHeader step1) ''Content-Type'' ''application/octet-stream''\<rparr>)
                in case do_call reg (Do uploadStep1) w1 of
                     (Failed err, w2) \<Rightarrow>
                       (Some (ErrorString (''error while uploading blob to '' @ repository
                          @ '', digest: '' @ digest @ '': '' @ Error_text L err)), w2)
                   | (FailedWithResponse resp1 err, w2) \<Rightarrow>
                       (Some (ErrorString (''error while uploading blob to '' @ repository @ '': ''
                          @ Itoa L (StatusCode resp1) @ '' '' @ Status resp1
                          @ '': digest: '' @ digest @ '': '' @ Error_text L err)), Close resp1 w2)
                   | (Ok resp1, w2) \<Rightarrow>
                       (if StatusCode resp1 \<noteq> 202 then
                          (Some (ErrorString (''unexpected PATCH response while uploading blob to ''
                             @ repository @ '': '' @ Itoa L (StatusCode resp1) @ '' '' @ Status resp1
                             @ '': digest: '' @ digest)), Close resp1 w2)
                        else
                          (case NewRequest L ''PUT'' (URL_String L uploadUrl) None of
                             Inl err \<Rightarrow> (Some err, Close resp1 w2)
                           | Inr step2 \<Rightarrow>
                               (let uploadStep2 = withGetBody getBody
                                      (step2\<lparr>ReqHeader :=
                                         Header_Set (ReqHeader step2) ''Content-Type'' ''application/octet-stream''\<rparr>)
                                in case do_call reg (Do uploadStep2) w2 of
                                     (Failed err, w3) \<Rightarrow> (Some err, Close resp1 w3)
                                   | (FailedWithResponse resp2 err, w3) \<Rightarrow> (Some err, Close resp1 w3)
                                   | (Ok resp2, w3) \<Rightarrow> (None, Close resp1 w3)))))))"

definition UploadBlob ::
  "golib \<Rightarrow> registry \<Rightarrow> string \<Rightarrow> string \<Rightarrow> reader \<Rightarrow> get_body option \<Rightarrow> world \<Rightarrow> go_error option \<times> world" where
  "UploadBlob L reg repository digest content getBody w =
     (case initiateUpload L reg repository w of
        (Inl err, w1) \<Rightarrow> (Some err, w1)
      | (Inr uploadUrl0, w1) \<Rightarrow>
          (let uploadUrl = setDigest L uploadUrl0 digest in
           case NewRequest L ''PUT'' (URL_String L uploadUrl) (Some content) of
             Inl err \<Rightarrow> (Some err, w1)
           | Inr upload0 \<Rightarrow>
               (let upload = withGetBody getBody
                      (upload0\<lparr>ReqHeader :=
                         Header_Set (ReqHeader upload0) ''Content-Type'' ''application/octet-stream''\<rparr>)
                in case do_call reg (Do upload) w1 of
                     (Failed err, w2) \<Rightarrow> (Some err, w2)
                   | (FailedWithResponse resp err, w2) \<Rightarrow> (Some err, w2)
                   | (Ok resp, w2) \<Rightarrow> (None, Close resp w2))))"

definition StatusOK :: int where
  "StatusOK = 200"

definition StatusNotFound :: int where
  "StatusNotFound = 404"

definition notFound :: "go_error \<Rightarrow> (bool \<times> go_error option)" where
  \<comment> \<open>the tail of \<open>HasBlob\<close>, reached with \<open>err != nil\<close>: the two type assertions, then the status test\<close>
  "notFound err =
     (case err of
        UrlError op' u inner \<Rightarrow>
          (case inner of
             HttpStatusError r \<Rightarrow>
               (if StatusCode r = StatusNotFound then (False, None) else (False, Some err))
           | _ \<Rightarrow> (False, Some err))
      | _ \<Rightarrow> (False, Some err))"

definition HasBlob :: "registry \<Rightarrow> string \<Rightarrow> string \<Rightarrow> world \<Rightarrow> (bool \<times> go_error option) \<times> world" where
  "HasBlob reg repository digest w =
     (case do_call reg (Head (url reg ''/v2/%s/blobs/%s'' [repository, digest])) w of
        (Ok resp, w1) \<Rightarrow> ((StatusCode resp = StatusOK, None), Close resp w1)
      | (Failed err, w1) \<Rightarrow> (notFound err, w1)
      | (FailedWithResponse resp err, w1) \<Rightarrow> (notFound err, Close resp w1))"

text \<open>
  \<open>distribution.Descriptor\<close>, with the fields of its declaration that hold plain data.
\<close>

record descriptor =
  MediaType :: string
  Size :: int
  Digest :: string
  URLs :: "string list"

definition zeroDescriptor :: descriptor where
  \<comment> \<open>\<open>distribution.Descriptor{}\<close>\<close>
  "zeroDescriptor = \<lparr>MediaType = [], Size = 0, Digest = [], URLs = []\<rparr>"

definition BlobMetadata :: "registry \<Rightarrow> string \<Rightarrow> string \<Rightarrow> world \<Rightarrow> (descriptor \<times> go_error option) \<times> world" where
  "BlobMetadata reg repository digest w =
     (case do_call reg (Head (url reg ''/v2/%s/blobs/%s'' [repository, digest])) w of
        (Failed err, w1) \<Rightarrow> ((zeroDescriptor, Some err), w1)
      | (FailedWithResponse resp err, w1) \<Rightarrow> ((zeroDescriptor, Some err), Close resp w1)
      | (Ok resp, w1) \<Rightarrow>
          ((\<lparr>MediaType = [], Size = ContentLength resp, Digest = digest, URLs = []\<rparr>, None),
           Close resp w1))"

section \<open>Reading an exchange\<close>

definition resp_of :: "exchange \<Rightarrow> response option" where
  \<comment> \<open>the \<open>resp\<close> of the pair; \<open>None\<close> is \<open>nil\<close>\<close>
  "resp_of x = (case x of Ok r \<Rightarrow> Some r | Failed e \<Rightarrow> None | FailedWithResponse r e \<Rightarrow> Some r)"

definition err_of :: "exchange \<Rightarrow> go_error option" where
  \<comment> \<open>the \<open>err\<close> of the pair; \<open>None\<close> is \<open>nil\<close>\<close>
  "err_of x = (case x of Ok r \<Rightarrow> None | Failed e \<Rightarrow> Some e | FailedWithResponse r e \<Rightarrow> Some e)"

section \<open>A fake registry\<close>

text \<open>
  Test doubles for the parameters: a client that answers the n-th call with the n-th
  entry of a script, and small stand-ins for the library functions, good for addresses
  without escapes and with at most one query parameter.
\<close>

fun sprintf :: "string \<Rightarrow> string list \<Rightarrow> string" where
  "sprintf (c # d # t) (a # as) =
     (if c = CHR ''%'' \<and> d = CHR ''s'' then a @ sprintf t as else c # sprintf (d # t) (a # as))"
| "sprintf t as = t"

definition reply :: "int \<Rightarrow> string \<Rightarrow> header \<Rightarrow> nat \<Rightarrow> string \<Rightarrow> response" where
  "reply code status hdr n txt =
     \<lparr>StatusCode = code, Status = status, Header = hdr, ContentLength = int (length txt),
      Body = \<lparr>BodyId = n, Data = txt\<rparr>\<rparr>"

definition scripted :: "exchange list \<Rightarrow> call list \<Rightarrow> call \<Rightarrow> exchange" where
  "scripted script history c =
     (if length history < length script then script ! length history
      else Failed (ErrorString ''connection refused''))"

definition fakeRegistry :: "exchange list \<Rightarrow> registry" where
  "fakeRegistry script =
     \<lparr>url = (\<lambda>t as. ''http://registry.test'' @ sprintf t as), Client = scripted script\<rparr>"

definition parseURL :: "string \<Rightarrow> go_error + go_url" where
  "parseURL s =
     (if CHR 0x7F \<in> set s then Inl (ErrorString ''net/url: invalid control character in URL'')
      else Inr \<lparr>Scheme = [], Host = [], Path = takeWhile (\<lambda>c. c \<noteq> CHR ''?'') s,
                RawQuery = drop 1 (dropWhile (\<lambda>c. c \<noteq> CHR ''?'') s), Fragment = []\<rparr>)"

definition formatURL :: "go_url \<Rightarrow> string" where
  "formatURL u = Path u @ (if RawQuery u = [] then [] else CHR ''?'' # RawQuery u)"

definition parseQuery :: "string \<Rightarrow> url_values" where
  "parseQuery s =
     (if s = [] then []
      else [(takeWhile (\<lambda>c. c \<noteq> CHR ''='') s, [drop 1 (dropWhile (\<lambda>c. c \<noteq> CHR ''='') s)])])"

fun encodeValues :: "url_values \<Rightarrow> string" where
  "encodeValues [] = []"
| "encodeValues [(k, vs)] = k @ ''='' @ concat vs"
| "encodeValues ((k, vs) # q) = k @ ''='' @ concat vs @ ''&'' @ encodeValues q"

fun decimal :: "nat \<Rightarrow> nat \<Rightarrow> string" where
  \<comment> \<open>the first argument bounds the number of digits\<close>
  "decimal 0 n = []"
| "decimal (Suc k) n =
     (if n < 10 then [''0123456789'' ! n] else decimal k (n div 10) @ [''0123456789'' ! (n mod 10)])"

fun errorText :: "go_error \<Rightarrow> string" where
  "errorText (UrlError op' u e) = op' @ '' '' @ u @ '': '' @ errorText e"
| "errorText (HttpStatusError r) = ''http: non-successful response ('' @ Status r @ '')''"
| "errorText (ErrorString m) = m"

definition testlib :: golib where
  "testlib =
     \<lparr>url_Parse = parseURL, URL_String = formatURL, url_ParseQuery = parseQuery,
      Values_Encode = encodeValues,
      Itoa = (\<lambda>i. if i < 0 then CHR ''-'' # decimal 20 (nat (- i)) else decimal 20 (nat i)),
      Error_text = errorText\<rparr>"

definition w0 :: world where
  "w0 = \<lparr>calls = [], closed = []\<rparr>"

definition sessionOpened :: exchange where
  "sessionOpened =
     Ok (reply 202 ''202 Accepted'' [(''Location'', ''/v2/library/alpine/blobs/uploads/1'')] 0 [])"

definition sessionURL :: go_url where
  "sessionURL =
     \<lparr>Scheme = [], Host = [], Path = ''/v2/library/alpine/blobs/uploads/1'', RawQuery = [],
      Fragment = []\<rparr>"

definition afterPost :: world where
  "afterPost =
     \<lparr>calls = [Post ''http://registry.test/v2/library/alpine/blobs/uploads/''
                   ''application/octet-stream'' None],
      closed = [0]\<rparr>"

definition blobMissing :: go_error where
  "blobMissing =
     UrlError ''Head'' ''http://registry.test/v2/library/alpine/blobs/sha256:ab''
       (HttpStatusError (reply 404 ''404 Not Found'' [] 0 []))"

definition connectionReset :: go_error where
  "connectionReset =
     UrlError ''Head'' ''http://registry.test/v2/library/alpine/blobs/sha256:ab''
       (ErrorString ''read: connection reset by peer'')"

section \<open>Unfolding the operations\<close>

lemmas fake_defs = sessionOpened_def sessionURL_def afterPost_def blobMissing_def connectionReset_def
  reply_def fakeRegistry_def scripted_def testlib_def w0_def
  parseURL_def formatURL_def parseQuery_def
  initiateUpload_def do_call_def Close_def Header_Get_def setDigest_def Values_Set_def
  resp_of_def err_of_def

lemma initiateUpload_calls:
  "initiateUpload L reg repository w = (r, w1) \<Longrightarrow>
   calls w1 = calls w @ [Post (url reg ''/v2/%s/blobs/uploads/'' [repository]) ''application/octet-stream'' None]"
  by (auto simp: initiateUpload_def do_call_def Close_def split: exchange.splits sum.splits)

lemma NewRequest_Inr:
  "url_Parse L target = Inr u \<Longrightarrow>
   NewRequest L method target content =
     Inr \<lparr>Method = method, Target = target, ReqHeader = [], ReqBody = content, GetBody = None\<rparr>"
  by (simp add: NewRequest_def)

lemma withGetBody_None:
  "withGetBody getBody \<lparr>Method = m, Target = t, ReqHeader = h, ReqBody = b, GetBody = None\<rparr> =
   \<lparr>Method = m, Target = t, ReqHeader = h, ReqBody = b, GetBody = getBody\<rparr>"
  by (cases getBody) (simp_all add: withGetBody_def)



lemma completeChunkedUploadBlob_put:
  assumes "url_Parse L (URL_String L (setDigest L u digest)) = Inr pu"
  shows "completeChunkedUploadBlob L reg repository digest getBody u w =
     (case do_call reg
        (Do \<lparr>Method = ''PUT'', Target = URL_String L (setDigest L u digest),
            ReqHeader = [(''Content-Type'', ''application/octet-stream''),
                         (''Content-Range'', ''0-0''), (''Content-Length'', ''0'')],
            ReqBody = None, GetBody = getBody\<rparr>) w of
        (Failed err, w1) \<Rightarrow> (Some err, w1)
      | (FailedWithResponse resp err, w1) \<Rightarrow> (Some err, w1)
      | (Ok resp, w1) \<Rightarrow>
          (if StatusCode resp \<noteq> 201 then (Some (unexpectedStatus L (setDigest L u digest) resp), w1)
           else (None, Close resp w1)))"
  using assms
  by (simp add: completeChunkedUploadBlob_def Let_def NewRequest_Inr withGetBody_None Header_Set_def)

lemma completeChunkedUploadBlob_unparsed:
  assumes "url_Parse L (URL_String L (setDigest L u digest)) = Inl e"
  shows "completeChunkedUploadBlob L reg repository digest getBody u w = (Some e, w)"
  using assms by (simp add: completeChunkedUploadBlob_def Let_def NewRequest_def)

lemma UploadChunkedBlob_patch:
  assumes "initiateUpload L reg repository w = (Inr u, w1)"
    and "url_Parse L (URL_String L u) = Inr pu"
  shows "UploadChunkedBlob L reg repository digest content getBody w =
     (case do_call reg
        (Do \<lparr>Method = ''PATCH'', Target = URL_String L u,
            ReqHeader = [(''Content-Type'', ''application/octet-stream'')],
            ReqBody = Some content, GetBody = getBody\<rparr>) w1 of
        (Failed err, w2) \<Rightarrow> (Some err, w2)
      | (FailedWithResponse resp err, w2) \<Rightarrow> (Some err, w2)
      | (Ok resp, w2) \<Rightarrow>
          (if StatusCode resp \<noteq> 202 then (Some (unexpectedStatus L u resp), w2)
           else completeChunkedUploadBlob L reg repository digest getBody u (Close resp w2)))"
  using assms
  by (simp add: UploadChunkedBlob_def NewRequest_Inr withGetBody_None Header_Set_def)


lemma UploadBlob_put:
  assumes "initiateUpload L reg repository w = (Inr u, w')"
    and "url_Parse L (URL_String L (setDigest L u digest)) = Inr pu"
  shows "UploadBlob L reg repository digest content getBody w =
      (case do_call reg
         (Do \<lparr>Method = ''PUT'', Target = URL_String L (setDigest L u digest),
             ReqHeader = [(''Content-Type'', ''application/octet-stream'')],
             ReqBody = Some content, GetBody = getBody\<rparr>) w' of
         (Failed err, w2) \<Rightarrow> (Some err, w2)
       | (FailedWithResponse resp err, w2) \<Rightarrow> (Some err, w2)
       | (Ok resp, w2) \<Rightarrow> (None, Close resp w2))"
  using assms
  by (simp add: UploadBlob_def Let_def NewRequest_Inr withGetBody_None Header_Set_def)

lemma UploadChunkedBlob_calls:
  assumes "initiateUpload L reg repository w = (Inr u, w')"
    and "url_Parse L (URL_String L u) = Inr pu"
  shows "calls (snd (UploadChunkedBlob L reg repository digest content getBody w))
            = calls w' @ [Do \<lparr>Method = ''PATCH'', Target = URL_String L u,
                              ReqHeader = [(''Content-Type'', ''application/octet-stream'')],
                              ReqBody = Some content, GetBody = getBody\<rparr>]
          \<or> calls (snd (UploadChunkedBlob L reg repository digest content getBody w))
            = calls w' @ [Do \<lparr>Method = ''PATCH'', Target = URL_String L u,
                              ReqHeader = [(''Content-Type'', ''application/octet-stream'')],
                              ReqBody = Some content, GetBody = getBody\<rparr>,
                          Do \<lparr>Method = ''PUT'', Target = URL_String L (setDigest L u digest),
                              ReqHeader = [(''Content-Type'', ''application/octet-stream''),
                                           (''Content-Range'', ''0-0''), (''Content-Length'', ''0'')],
                              ReqBody = None, GetBody = getBody\<rparr>]"
proof (cases "url_Parse L (URL_String L (setDigest L u digest))")
  case (Inl e)
  then show ?thesis
    unfolding UploadChunkedBlob_patch [OF assms]
    by (auto simp: completeChunkedUploadBlob_unparsed do_call_def Close_def split: exchange.splits)
next
  case (Inr pu3)
  then show ?thesis
    unfolding UploadChunkedBlob_patch [OF assms]
    by (auto simp: completeChunkedUploadBlob_put [OF Inr] do_call_def Close_def split: exchange.splits)
qed

section \<open>Existence and metadata probes\<close>

text \<open>
  C1. For every repository and digest, \<open>HasBlob\<close> returns \<open>(true, nil)\<close> when the
  HEAD exchange completes without error and with status 200; it returns \<open>(false, nil)\<close>
  when the exchange returns an error that is a \<open>url.Error\<close> whose inner cause is an
  \<open>HttpStatusError\<close> with status 404; for every other error it returns \<open>false\<close>
  together with that error, unchanged.
\<close>

theorem HasBlob_result:
  "(Client reg (calls w) (Head (url reg ''/v2/%s/blobs/%s'' [repository, digest])) = Ok resp
        \<and> StatusCode resp = 200
      \<longrightarrow> fst (HasBlob reg repository digest w) = (True, None))
   \<and> (err_of (Client reg (calls w) (Head (url reg ''/v2/%s/blobs/%s'' [repository, digest])))
          = Some (UrlError op' target (HttpStatusError r))
        \<and> StatusCode r = 404
      \<longrightarrow> fst (HasBlob reg repository digest w) = (False, None))
   \<and> (err_of (Client reg (calls w) (Head (url reg ''/v2/%s/blobs/%s'' [repository, digest]))) = Some err
        \<and> \<not> (\<exists>op' target r. err = UrlError op' target (HttpStatusError r) \<and> StatusCode r = 404)
      \<longrightarrow> fst (HasBlob reg repository digest w) = (False, Some err))"
  by (auto simp: HasBlob_def do_call_def err_of_def notFound_def StatusOK_def StatusNotFound_def
           split: exchange.splits go_error.splits)

text \<open>
  The three cases on the fake registry: a blob that is there, a blob reported missing
  through the wrapped 404, and a connection that broke.
\<close>

theorem HasBlob_result_witness:
  "fst (HasBlob (fakeRegistry [Ok (reply 200 ''200 OK'' [] 0 [])]) ''library/alpine'' ''sha256:ab'' w0)
     = (True, None)
   \<and> fst (HasBlob (fakeRegistry [Failed blobMissing]) ''library/alpine'' ''sha256:ab'' w0)
     = (False, None)
   \<and> fst (HasBlob (fakeRegistry [Failed connectionReset]) ''library/alpine'' ''sha256:ab'' w0)
     = (False, Some connectionReset)"
  using HasBlob_result [where reg = "fakeRegistry [Ok (reply 200 ''200 OK'' [] 0 [])]"
      and repository = "''library/alpine''" and digest = "''sha256:ab''" and w = w0
      and resp = "reply 200 ''200 OK'' [] 0 []"]
    HasBlob_result [where reg = "fakeRegistry [Failed blobMissing]"
      and repository = "''library/alpine''" and digest = "''sha256:ab''" and w = w0
      and op' = "''Head''" and target = "''http://registry.test/v2/library/alpine/blobs/sha256:ab''"
      and r = "reply 404 ''404 Not Found'' [] 0 []"]
    HasBlob_result [where reg = "fakeRegistry [Failed connectionReset]"
      and repository = "''library/alpine''" and digest = "''sha256:ab''" and w = w0
      and err = connectionReset]
  by (simp add: fake_defs)

text \<open>
  C8. For every repository and digest, if the HEAD exchange completes without error,
  \<open>BlobMetadata\<close> returns a descriptor whose digest is the caller's digest and whose
  size is the response's \<open>Content-Length\<close>, with a nil error; if the exchange returns any
  error, the wrapped 404 that \<open>HasBlob\<close> turns into \<open>false\<close> included, it returns the
  zero descriptor and that error, unchanged.
\<close>

theorem BlobMetadata_result:
  "(Client reg (calls w) (Head (url reg ''/v2/%s/blobs/%s'' [repository, digest])) = Ok resp
      \<longrightarrow> snd (fst (BlobMetadata reg repository digest w)) = None
          \<and> Digest (fst (fst (BlobMetadata reg repository digest w))) = digest
          \<and> Size (fst (fst (BlobMetadata reg repository digest w))) = ContentLength resp)
   \<and> (err_of (Client reg (calls w) (Head (url reg ''/v2/%s/blobs/%s'' [repository, digest]))) = Some err
      \<longrightarrow> fst (BlobMetadata reg repository digest w) = (zeroDescriptor, Some err))"
  by (auto simp: BlobMetadata_def do_call_def err_of_def split: exchange.splits)

text \<open>
  A blob of five bytes that is there, and the wrapped 404.
\<close>

theorem BlobMetadata_result_witness:
  "snd (fst (BlobMetadata (fakeRegistry [Ok (reply 200 ''200 OK'' [] 0 ''layer'')]) ''library/alpine'' ''sha256:ab'' w0)) = None
   \<and> Digest (fst (fst (BlobMetadata (fakeRegistry [Ok (reply 200 ''200 OK'' [] 0 ''layer'')]) ''library/alpine'' ''sha256:ab'' w0))) = ''sha256:ab''
   \<and> Size (fst (fst (BlobMetadata (fakeRegistry [Ok (reply 200 ''200 OK'' [] 0 ''layer'')]) ''library/alpine'' ''sha256:ab'' w0))) = 5
   \<and> fst (BlobMetadata (fakeRegistry [Failed blobMissing]) ''library/alpine'' ''sha256:ab'' w0)
       = (zeroDescriptor, Some blobMissing)"
  using BlobMetadata_result [where reg = "fakeRegistry [Ok (reply 200 ''200 OK'' [] 0 ''layer'')]"
      and repository = "''library/alpine''" and digest = "''sha256:ab''" and w = w0
      and resp = "reply 200 ''200 OK'' [] 0 ''layer''"]
    BlobMetadata_result [where reg = "fakeRegistry [Failed blobMissing]"
      and repository = "''library/alpine''" and digest = "''sha256:ab''" and w = w0
      and err = blobMissing]
  by (simp add: fake_defs)

section \<open>Download\<close>

text \<open>
  C9. For every repository and digest, \<open>DownloadBlob\<close> returns an error if and only
  if the GET exchange returns one, and then it is that error; whenever the exchange
  returns a response without error, whatever its status, the body of that response is
  returned with a nil error, and nothing is closed: the world differs by the GET call
  alone.
\<close>

theorem DownloadBlob_result:
  "(fst (DownloadBlob reg repository digest w) = Inl err
      \<longleftrightarrow> err_of (Client reg (calls w) (Get (url reg ''/v2/%s/blobs/%s'' [repository, digest]))) = Some err)
   \<and> (Client reg (calls w) (Get (url reg ''/v2/%s/blobs/%s'' [repository, digest])) = Ok resp
      \<longrightarrow> DownloadBlob reg repository digest w
            = (Inr (Body resp), w\<lparr>calls := calls w @ [Get (url reg ''/v2/%s/blobs/%s'' [repository, digest])]\<rparr>))"
  by (auto simp: DownloadBlob_def do_call_def err_of_def split: exchange.splits)

text \<open>
  A 404 answer is handed over as a stream; a broken connection is an error.
\<close>

theorem DownloadBlob_result_witness:
  "DownloadBlob (fakeRegistry [Ok (reply 404 ''404 Not Found'' [] 0 ''blob unknown'')]) ''library/alpine'' ''sha256:ab'' w0
     = (Inr \<lparr>BodyId = 0, Data = ''blob unknown''\<rparr>,
        \<lparr>calls = [Get ''http://registry.test/v2/library/alpine/blobs/sha256:ab''], closed = []\<rparr>)
   \<and> fst (DownloadBlob (fakeRegistry [Failed connectionReset]) ''library/alpine'' ''sha256:ab'' w0)
     = Inl connectionReset"
  using DownloadBlob_result [where reg = "fakeRegistry [Ok (reply 404 ''404 Not Found'' [] 0 ''blob unknown'')]"
      and repository = "''library/alpine''" and digest = "''sha256:ab''" and w = w0
      and resp = "reply 404 ''404 Not Found'' [] 0 ''blob unknown''"]
    DownloadBlob_result [where reg = "fakeRegistry [Failed connectionReset]"
      and repository = "''library/alpine''" and digest = "''sha256:ab''" and w = w0
      and err = connectionReset]
  by (simp add: fake_defs)

section \<open>Session initiation\<close>

text \<open>
  C5, as stated, asks for an error on a non-success response status.
  \<open>initiateUpload\<close> never reads the status: a 500 answer that comes without an error
  and carries a \<open>Location\<close> yields the parsed location and a nil error.
\<close>

theorem initiateUpload_status_unchecked:
  "fst (initiateUpload testlib
          (fakeRegistry [Ok (reply 500 ''500 Internal Server Error''
                               [(''Location'', ''/v2/library/alpine/blobs/uploads/1'')] 0 ''unavailable'')])
          ''library/alpine'' w0)
     = Inr sessionURL"
  by (simp add: fake_defs)

text \<open>
  C5, amended. For every repository, \<open>initiateUpload\<close> returns the error of the
  session-start POST when the exchange returns one, and the parse error when the
  \<open>Location\<close> header value fails to parse as a URL; when the exchange returns a
  response without error, whatever its status, and the \<open>Location\<close> value parses, it
  returns the parsed URL. On every path the body of a response that was received is
  closed, once, before returning; when no response was received nothing is closed.
\<close>

theorem initiateUpload_result:
  "(err_of (Client reg (calls w)
        (Post (url reg ''/v2/%s/blobs/uploads/'' [repository]) ''application/octet-stream'' None)) = Some err
      \<longrightarrow> fst (initiateUpload L reg repository w) = Inl err)
   \<and> (Client reg (calls w)
        (Post (url reg ''/v2/%s/blobs/uploads/'' [repository]) ''application/octet-stream'' None) = Ok resp
        \<and> url_Parse L (Header_Get (Header resp) ''Location'') = Inl err
      \<longrightarrow> fst (initiateUpload L reg repository w) = Inl err)
   \<and> (Client reg (calls w)
        (Post (url reg ''/v2/%s/blobs/uploads/'' [repository]) ''application/octet-stream'' None) = Ok resp
        \<and> url_Parse L (Header_Get (Header resp) ''Location'') = Inr u
      \<longrightarrow> fst (initiateUpload L reg repository w) = Inr u)
   \<and> (resp_of (Client reg (calls w)
        (Post (url reg ''/v2/%s/blobs/uploads/'' [repository]) ''application/octet-stream'' None)) = Some resp
      \<longrightarrow> closed (snd (initiateUpload L reg repository w)) = closed w @ [BodyId (Body resp)])
   \<and> (resp_of (Client reg (calls w)
        (Post (url reg ''/v2/%s/blobs/uploads/'' [repository]) ''application/octet-stream'' None)) = None
      \<longrightarrow> closed (snd (initiateUpload L reg repository w)) = closed w)"
  by (auto simp: initiateUpload_def do_call_def Close_def err_of_def resp_of_def
           split: exchange.splits sum.splits)

text \<open>
  A broken connection, a \<open>Location\<close> that does not parse, and a session that opens.
\<close>

theorem initiateUpload_result_witness:
  "fst (initiateUpload testlib (fakeRegistry [Failed connectionReset]) ''library/alpine'' w0)
     = Inl connectionReset
   \<and> closed (snd (initiateUpload testlib (fakeRegistry [Failed connectionReset]) ''library/alpine'' w0)) = []
   \<and> fst (initiateUpload testlib
            (fakeRegistry [Ok (reply 202 ''202 Accepted'' [(''Location'', [CHR 0x7F])] 0 [])])
            ''library/alpine'' w0)
     = Inl (ErrorString ''net/url: invalid control character in URL'')
   \<and> fst (initiateUpload testlib (fakeRegistry [sessionOpened]) ''library/alpine'' w0) = Inr sessionURL
   \<and> closed (snd (initiateUpload testlib (fakeRegistry [sessionOpened]) ''library/alpine'' w0)) = [0]"
  using initiateUpload_result [where L = testlib and reg = "fakeRegistry [Failed connectionReset]"
      and repository = "''library/alpine''" and w = w0 and err = connectionReset]
    initiateUpload_result [where L = testlib
      and reg = "fakeRegistry [Ok (reply 202 ''202 Accepted'' [(''Location'', [CHR 0x7F])] 0 [])]"
      and repository = "''library/alpine''" and w = w0
      and resp = "reply 202 ''202 Accepted'' [(''Location'', [CHR 0x7F])] 0 []"
      and err = "ErrorString ''net/url: invalid control character in URL''"]
    initiateUpload_result [where L = testlib and reg = "fakeRegistry [sessionOpened]"
      and repository = "''library/alpine''" and w = w0
      and resp = "reply 202 ''202 Accepted'' [(''Location'', ''/v2/library/alpine/blobs/uploads/1'')] 0 []"
      and u = sessionURL]
  by (simp add: fake_defs)

text \<open>
  C10. If the session-start POST completes without error and its response carries no
  \<open>Location\<close> header, or an empty one, then \<open>initiateUpload\<close> parses the empty
  string: where \<open>url.Parse\<close> accepts the empty string, as Go's does, it returns that URL
  and a nil error, and the uploads build their next request against it: the chunked
  upload its PATCH, the monolithic upload its PUT with the digest added.
\<close>

theorem initiateUpload_missing_location:
  assumes "Client reg (calls w)
        (Post (url reg ''/v2/%s/blobs/uploads/'' [repository]) ''application/octet-stream'' None) = Ok resp"
    and "map_of (Header resp) ''Location'' = None \<or> map_of (Header resp) ''Location'' = Some []"
    and "url_Parse L [] = Inr u"
  shows "fst (initiateUpload L reg repository w) = Inr u
     \<and> (url_Parse L (URL_String L u) = Inr pu
        \<longrightarrow> take 2 (drop (length (calls w))
               (calls (snd (UploadChunkedBlob L reg repository digest content getBody w))))
            = [Post (url reg ''/v2/%s/blobs/uploads/'' [repository]) ''application/octet-stream'' None,
               Do \<lparr>Method = ''PATCH'', Target = URL_String L u,
                   ReqHeader = [(''Content-Type'', ''application/octet-stream'')],
                   ReqBody = Some content, GetBody = getBody\<rparr>])
     \<and> (url_Parse L (URL_String L (setDigest L u digest)) = Inr pu'
        \<longrightarrow> drop (length (calls w)) (calls (snd (UploadBlob L reg repository digest content getBody w)))
            = [Post (url reg ''/v2/%s/blobs/uploads/'' [repository]) ''application/octet-stream'' None,
               Do \<lparr>Method = ''PUT'', Target = URL_String L (setDigest L u digest),
                   ReqHeader = [(''Content-Type'', ''application/octet-stream'')],
                   ReqBody = Some content, GetBody = getBody\<rparr>])"
proof -
  have loc: "Header_Get (Header resp) ''Location'' = []"
    using assms(2) by (auto simp: Header_Get_def)
  obtain w' where init: "initiateUpload L reg repository w = (Inr u, w')"
    using assms(1,3) loc by (simp add: initiateUpload_def do_call_def)
  have c: "calls w' = calls w @ [Post (url reg ''/v2/%s/blobs/uploads/'' [repository]) ''application/octet-stream'' None]"
    using init by (rule initiateUpload_calls)
  have one: "fst (initiateUpload L reg repository w) = Inr u"
    using init by simp
  have two: "take 2 (drop (length (calls w))
               (calls (snd (UploadChunkedBlob L reg repository digest content getBody w))))
            = [Post (url reg ''/v2/%s/blobs/uploads/'' [repository]) ''application/octet-stream'' None,
               Do \<lparr>Method = ''PATCH'', Target = URL_String L u,
                   ReqHeader = [(''Content-Type'', ''application/octet-stream'')],
                   ReqBody = Some content, GetBody = getBody\<rparr>]"
    if "url_Parse L (URL_String L u) = Inr pu"
    using UploadChunkedBlob_calls [OF init that, where digest = digest and content = content and getBody = getBody] c
    by auto
  have three: "drop (length (calls w)) (calls (snd (UploadBlob L reg repository digest content getBody w)))
            = [Post (url reg ''/v2/%s/blobs/uploads/'' [repository]) ''application/octet-stream'' None,
               Do \<lparr>Method = ''PUT'', Target = URL_String L (setDigest L u digest),
                   ReqHeader = [(''Content-Type'', ''application/octet-stream'')],
                   ReqBody = Some content, GetBody = getBody\<rparr>]"
    if "url_Parse L (URL_String L (setDigest L u digest)) = Inr pu'"
    using UploadBlob_put [OF init that, where content = content and getBody = getBody] c
    by (simp add: do_call_def Close_def split: exchange.splits)
  from one two three show ?thesis by blast
qed

text \<open>
  An answer without \<open>Location\<close>: the PATCH goes to the empty address, the PUT to
  \<open>?digest=sha256:ab\<close>.
\<close>

theorem initiateUpload_missing_location_witness:
  "fst (initiateUpload testlib (fakeRegistry [Ok (reply 202 ''202 Accepted'' [] 0 [])]) ''library/alpine'' w0)
     = Inr \<lparr>Scheme = [], Host = [], Path = [], RawQuery = [], Fragment = []\<rparr>
   \<and> take 2 (calls (snd (UploadChunkedBlob testlib (fakeRegistry [Ok (reply 202 ''202 Accepted'' [] 0 [])])
                ''library/alpine'' ''sha256:ab'' ''layer'' None w0)))
     = [Post ''http://registry.test/v2/library/alpine/blobs/uploads/'' ''application/octet-stream'' None,
        Do \<lparr>Method = ''PATCH'', Target = [],
            ReqHeader = [(''Content-Type'', ''application/octet-stream'')],
            ReqBody = Some ''layer'', GetBody = None\<rparr>]
   \<and> calls (snd (UploadBlob testlib (fakeRegistry [Ok (reply 202 ''202 Accepted'' [] 0 [])])
                ''library/alpine'' ''sha256:ab'' ''layer'' None w0))
     = [Post ''http://registry.test/v2/library/alpine/blobs/uploads/'' ''application/octet-stream'' None,
        Do \<lparr>Method = ''PUT'', Target = ''?digest=sha256:ab'',
            ReqHeader = [(''Content-Type'', ''application/octet-stream'')],
            ReqBody = Some ''layer'', GetBody = None\<rparr>]"
  using initiateUpload_missing_location [where L = testlib
      and reg = "fakeRegistry [Ok (reply 202 ''202 Accepted'' [] 0 [])]"
      and repository = "''library/alpine''" and w = w0 and digest = "''sha256:ab''"
      and content = "''layer''" and getBody = None
      and resp = "reply 202 ''202 Accepted'' [] 0 []"
      and u = "\<lparr>Scheme = [], Host = [], Path = [], RawQuery = [], Fragment = []\<rparr>"
      and pu = "\<lparr>Scheme = [], Host = [], Path = [], RawQuery = [], Fragment = []\<rparr>"
      and pu' = "\<lparr>Scheme = [], Host = [], Path = [], RawQuery = ''digest=sha256:ab'', Fragment = []\<rparr>"]
  by (simp add: fake_defs)

section \<open>Monolithic upload\<close>

text \<open>
  C7. For every monolithic upload, \<open>UploadBlob\<close> first obtains a session; when that
  fails it returns the error and issues nothing more. Otherwise it sets the digest as a
  query parameter on the session location (\<open>setDigest\<close>) and builds a PUT for that
  address; should the address not parse, that error is returned. Otherwise it issues
  exactly one request after the POST, a PUT to that address with
  \<open>Content-Type: application/octet-stream\<close>, the content as body and \<open>getBody\<close>
  attached, and it returns nil if and only if that exchange returns no error, whatever the
  status of the response.
\<close>

theorem UploadBlob_result:
  "(initiateUpload L reg repository w = (Inl err, w')
       \<longrightarrow> UploadBlob L reg repository digest content getBody w = (Some err, w'))
   \<and> (initiateUpload L reg repository w = (Inr u, w')
         \<and> url_Parse L (URL_String L (setDigest L u digest)) = Inl err
       \<longrightarrow> UploadBlob L reg repository digest content getBody w = (Some err, w'))
   \<and> (initiateUpload L reg repository w = (Inr u, w')
         \<and> url_Parse L (URL_String L (setDigest L u digest)) = Inr pu
       \<longrightarrow> calls (snd (UploadBlob L reg repository digest content getBody w))
             = calls w @ [Post (url reg ''/v2/%s/blobs/uploads/'' [repository]) ''application/octet-stream'' None,
                          Do \<lparr>Method = ''PUT'', Target = URL_String L (setDigest L u digest),
                              ReqHeader = [(''Content-Type'', ''application/octet-stream'')],
                              ReqBody = Some content, GetBody = getBody\<rparr>]
         \<and> (fst (UploadBlob L reg repository digest content getBody w) = None
              \<longleftrightarrow> err_of (Client reg (calls w')
                     (Do \<lparr>Method = ''PUT'', Target = URL_String L (setDigest L u digest),
                         ReqHeader = [(''Content-Type'', ''application/octet-stream'')],
                         ReqBody = Some content, GetBody = getBody\<rparr>)) = None))"
proof (intro conjI impI)
  assume "initiateUpload L reg repository w = (Inl err, w')"
  then show "UploadBlob L reg repository digest content getBody w = (Some err, w')"
    by (simp add: UploadBlob_def)
next
  assume "initiateUpload L reg repository w = (Inr u, w')
            \<and> url_Parse L (URL_String L (setDigest L u digest)) = Inl err"
  then show "UploadBlob L reg repository digest content getBody w = (Some err, w')"
    by (simp add: UploadBlob_def NewRequest_def)
next
  assume a: "initiateUpload L reg repository w = (Inr u, w')
            \<and> url_Parse L (URL_String L (setDigest L u digest)) = Inr pu"
  then show "calls (snd (UploadBlob L reg repository digest content getBody w))
             = calls w @ [Post (url reg ''/v2/%s/blobs/uploads/'' [repository]) ''application/octet-stream'' None,
                          Do \<lparr>Method = ''PUT'', Target = URL_String L (setDigest L u digest),
                              ReqHeader = [(''Content-Type'', ''application/octet-stream'')],
                              ReqBody = Some content, GetBody = getBody\<rparr>]"
    using UploadBlob_put [of L reg repository w u w' digest pu content getBody]
      initiateUpload_calls [of L reg repository w "Inr u" w']
    by (simp add: do_call_def Close_def split: exchange.splits)
  from a show "fst (UploadBlob L reg repository digest content getBody w) = None
              \<longleftrightarrow> err_of (Client reg (calls w')
                     (Do \<lparr>Method = ''PUT'', Target = URL_String L (setDigest L u digest),
                         ReqHeader = [(''Content-Type'', ''application/octet-stream'')],
                         ReqBody = Some content, GetBody = getBody\<rparr>)) = None"
    using UploadBlob_put [of L reg repository w u w' digest pu content getBody]
    by (simp add: do_call_def err_of_def split: exchange.splits)
qed

text \<open>
  A session that cannot be opened, a digest with a control character, and a PUT answered
  with status 500, which still counts as success.
\<close>

theorem UploadBlob_result_witness:
  "UploadBlob testlib (fakeRegistry [Failed connectionReset]) ''library/alpine'' ''sha256:ab'' ''layer'' None w0
     = (Some connectionReset,
        \<lparr>calls = [Post ''http://registry.test/v2/library/alpine/blobs/uploads/'' ''application/octet-stream'' None],
         closed = []\<rparr>)
   \<and> UploadBlob testlib (fakeRegistry [sessionOpened]) ''library/alpine'' [CHR 0x7F] ''layer'' None w0
     = (Some (ErrorString ''net/url: invalid control character in URL''), afterPost)
   \<and> calls (snd (UploadBlob testlib
              (fakeRegistry [sessionOpened, Ok (reply 500 ''500 Internal Server Error'' [] 1 ''digest invalid'')])
              ''library/alpine'' ''sha256:ab'' ''layer'' None w0))
      = [Post ''http://registry.test/v2/library/alpine/blobs/uploads/'' ''application/octet-stream'' None,
         Do \<lparr>Method = ''PUT'', Target = ''/v2/library/alpine/blobs/uploads/1?digest=sha256:ab'',
             ReqHeader = [(''Content-Type'', ''application/octet-stream'')],
             ReqBody = Some ''layer'', GetBody = None\<rparr>]
   \<and> fst (UploadBlob testlib
              (fakeRegistry [sessionOpened, Ok (reply 500 ''500 Internal Server Error'' [] 1 ''digest invalid'')])
              ''library/alpine'' ''sha256:ab'' ''layer'' None w0) = None"
  using UploadBlob_result [where L = testlib and reg = "fakeRegistry [Failed connectionReset]"
      and repository = "''library/alpine''" and w = w0 and digest = "''sha256:ab''"
      and content = "''layer''" and getBody = None and err = connectionReset
      and w' = "\<lparr>calls = [Post ''http://registry.test/v2/library/alpine/blobs/uploads/'' ''application/octet-stream'' None],
         closed = []\<rparr>"]
    UploadBlob_result [where L = testlib and reg = "fakeRegistry [sessionOpened]"
      and repository = "''library/alpine''" and w = w0 and digest = "[CHR 0x7F]"
      and content = "''layer''" and getBody = None
      and err = "ErrorString ''net/url: invalid control character in URL''"
      and u = sessionURL and w' = afterPost]
    UploadBlob_result [where L = testlib
      and reg = "fakeRegistry [sessionOpened, Ok (reply 500 ''500 Internal Server Error'' [] 1 ''digest invalid'')]"
      and repository = "''library/alpine''" and w = w0 and digest = "''sha256:ab''"
      and content = "''layer''" and getBody = None
      and u = sessionURL and w' = afterPost
      and pu = "sessionURL\<lparr>RawQuery := ''digest=sha256:ab''\<rparr>"]
  by (simp add: fake_defs)

section \<open>Chunked upload\<close>







section \<open>Closing response bodies\<close>

text \<open>
  C6. Every operation but \<open>DownloadBlob\<close> is to close each response body it
  receives, once, on every path. \<open>UploadChunkedBlob\<close> closes the body on the path that
  goes on, and returns early on an unexpected status after reading the body without
  closing it: with the PATCH answered by status 500 in body 1, only body 0, the session's,
  has been closed when the operation returns.
\<close>

theorem UploadChunkedBlob_rejected_body_left_open:
  "closed (snd (UploadChunkedBlob testlib
             (fakeRegistry [sessionOpened, Ok (reply 500 ''500 Internal Server Error'' [] 1 ''disk full'')])
             ''library/alpine'' ''sha256:ab'' ''layer'' None w0)) = [0]"
  by (simp add: fake_defs UploadChunkedBlob_def NewRequest_def withGetBody_def Header_Set_def
        unexpectedStatus_def)

text \<open>
  \<open>UploadBlobToArtifactory\<close> drops the response of its second exchange: body 2 is
  neither read nor closed, and a status 500 there ends in a nil error.
\<close>

lemma UploadBlobToArtifactory_finalize_unread:
  "UploadBlobToArtifactory testlib
     (fakeRegistry [sessionOpened, Ok (reply 202 ''202 Accepted'' [] 1 []),
                    Ok (reply 500 ''500 Internal Server Error'' [] 2 ''blob upload invalid'')])
     ''library/alpine'' ''sha256:ab'' ''layer'' None w0
   = (None,
      \<lparr>calls =
         [Post ''http://registry.test/v2/library/alpine/blobs/uploads/'' ''application/octet-stream'' None,
          Do \<lparr>Method = ''PATCH'', Target = ''/v2/library/alpine/blobs/uploads/1?digest=sha256:ab'',
              ReqHeader = [(''Content-Type'', ''application/octet-stream'')],
              ReqBody = Some ''layer'', GetBody = None\<rparr>,
          Do \<lparr>Method = ''PUT'', Target = ''/v2/library/alpine/blobs/uploads/1?digest=sha256:ab'',
              ReqHeader = [(''Content-Type'', ''application/octet-stream'')],
              ReqBody = None, GetBody = None\<rparr>],
       closed = [0, 1]\<rparr>)"
  by (simp add: fake_defs UploadBlobToArtifactory_def Let_def NewRequest_def withGetBody_def Header_Set_def)

end
